theory Spec2Isabelle
  imports Complex_Main
begin

section \<open>The heavy-trailer licensing fee calculator\<close>

text \<open>
  The calculator is the function \<open>calculate\<close> of \<^verbatim>\<open>src/App.tsx\<close>; an earlier revision
  of the same component (\<^verbatim>\<open>ht_axle_calc_react_type_script_mvp (1).jsx\<close>) carries its own
  copy of the function, of the money helpers and of the default rates.

  Numbers. A TypeScript \<open>number\<close> is modelled as a \<open>real\<close> and the arithmetic of the
  source (\<open>*\<close>, \<open>+\<close>, \<open>/\<close>) as exact arithmetic. \<open>Math.round\<close> returns the integer
  nearest to its argument, a tie going towards plus infinity, which is
  \<open>\<lfloor>x + 1/2\<rfloor>\<close>; \<open>Math.min\<close> is \<open>min\<close>. The rounding of binary64 products and quotients,
  the infinities and NaN are not part of this model: the amounts are the exact values
  that the source's expressions denote.
\<close>

subsection \<open>Data model\<close>

text \<open>The type of the \<open>DEFAULTS\<close> object, which is also the type of the parameter \<open>cfg\<close>.\<close>

record Config =
  gstRate :: real
  dutyRate :: real
  dutyCap :: real
  licencePerAxle :: real
  recordingFee :: real
  plateFee :: real
  insuranceBase :: real
  insuranceGstRate :: real
  insuranceDutyRate :: real
  inspectionInitial :: real
  inspectionReinspection :: real

datatype InspectionType = none | initial | reinspection

record CalcInput =
  priceExGst :: real
  axles :: real
  includeGstInDuty :: bool
  applyDutyCap :: bool
  firstTimeLicensing :: bool
  includeInsuranceLines :: bool
  inspectionType :: InspectionType

text \<open>
  \<open>CalcOutput\<close> has three fields that are named like fields of the configuration; the
  configuration's are written \<open>Config.insuranceBase\<close>, \<open>Config.recordingFee\<close> and
  \<open>Config.plateFee\<close> from here on.
\<close>

record CalcOutput =
  gst :: real
  dutiable :: real
  duty :: real
  licenceFee :: real
  insuranceBase :: real
  insuranceGst :: real
  insuranceDuty :: real
  recordingFee :: real
  plateFee :: real
  inspectionFee :: real
  roadRegoSubtotal :: real
  totalOnRoad :: real

subsection \<open>\<^verbatim>\<open>src/App.tsx\<close>\<close>

definition DEFAULTS :: Config where
  "DEFAULTS = \<lparr>
     gstRate = 0.10,
     dutyRate = 0.03,
     dutyCap = 12000,
     licencePerAxle = 572,
     recordingFee = 10.45,
     plateFee = 32.0,
     insuranceBase = 14.59,
     insuranceGstRate = 0.10,
     insuranceDutyRate = 0.11,
     inspectionInitial = 284.0,
     inspectionReinspection = 172.0 \<rparr>"

definition Math_round :: "real \<Rightarrow> real" where
  "Math_round x = of_int \<lfloor>x + 1 / 2\<rfloor>"

definition toCents :: "real \<Rightarrow> real" where
  "toCents aud = Math_round (aud * 100)"

definition fromCents :: "real \<Rightarrow> real" where
  "fromCents cents = cents / 100"

text \<open>
  The parameter \<open>cfg\<close> has the default value \<open>DEFAULTS\<close>: a call \<open>calculate(input)\<close> of
  the source is \<open>calculate input DEFAULTS\<close> here.
\<close>

definition calculate :: "CalcInput \<Rightarrow> Config \<Rightarrow> CalcOutput" where
  "calculate input cfg =
    (let P = toCents (priceExGst input);
         gst = (if includeGstInDuty input then Math_round (P * gstRate cfg) else 0);
         dutiable = P + gst;
         dutyRaw = Math_round (dutiable * dutyRate cfg);
         dutyCapCents = toCents (dutyCap cfg);
         duty = (if applyDutyCap input then min dutyRaw dutyCapCents else dutyRaw);
         licenceFee = toCents (licencePerAxle cfg * axles input);
         insuranceBase =
           (if includeInsuranceLines input then toCents (Config.insuranceBase cfg) else 0);
         insuranceGst =
           (if includeInsuranceLines input
            then Math_round (insuranceBase * insuranceGstRate cfg) else 0);
         insuranceDuty =
           (if includeInsuranceLines input
            then Math_round (insuranceBase * insuranceDutyRate cfg) else 0);
         recordingFee =
           (if firstTimeLicensing input then toCents (Config.recordingFee cfg) else 0);
         plateFee = (if firstTimeLicensing input then toCents (Config.plateFee cfg) else 0);
         inspectionFee =
           (if inspectionType input = initial then toCents (inspectionInitial cfg)
            else if inspectionType input = reinspection
            then toCents (inspectionReinspection cfg)
            else 0);
         roadRegoSubtotal =
           licenceFee + insuranceBase + insuranceGst + insuranceDuty + recordingFee
             + plateFee + inspectionFee;
         totalOnRoad = roadRegoSubtotal + duty
     in \<lparr> gst = fromCents gst,
          dutiable = fromCents dutiable,
          duty = fromCents duty,
          licenceFee = fromCents licenceFee,
          insuranceBase = fromCents insuranceBase,
          insuranceGst = fromCents insuranceGst,
          insuranceDuty = fromCents insuranceDuty,
          recordingFee = fromCents recordingFee,
          plateFee = fromCents plateFee,
          inspectionFee = fromCents inspectionFee,
          roadRegoSubtotal = fromCents roadRegoSubtotal,
          totalOnRoad = fromCents totalOnRoad \<rparr>)"

subsection \<open>\<^verbatim>\<open>ht_axle_calc_react_type_script_mvp (1).jsx\<close>\<close>

text \<open>
  The earlier revision declares the same two types \<open>CalcInput\<close> and \<open>CalcOutput\<close>, and
  its own \<open>DEFAULTS\<close>, \<open>toCents\<close>, \<open>fromCents\<close> and \<open>calculate\<close>; they are embedded
  separately, under the suffix \<open>_mvp\<close>, from the text of that file.
\<close>

definition DEFAULTS_mvp :: Config where
  "DEFAULTS_mvp = \<lparr>
     gstRate = 0.10,
     dutyRate = 0.03,
     dutyCap = 12000,
     licencePerAxle = 572,
     recordingFee = 10.45,
     plateFee = 32.0,
     insuranceBase = 14.59,
     insuranceGstRate = 0.10,
     insuranceDutyRate = 0.11,
     inspectionInitial = 284.0,
     inspectionReinspection = 172.0 \<rparr>"

definition toCents_mvp :: "real \<Rightarrow> real" where
  "toCents_mvp aud = Math_round (aud * 100)"

definition fromCents_mvp :: "real \<Rightarrow> real" where
  "fromCents_mvp cents = cents / 100"

definition calculate_mvp :: "CalcInput \<Rightarrow> Config \<Rightarrow> CalcOutput" where
  "calculate_mvp input cfg =
    (let P = toCents_mvp (priceExGst input);
         gst = (if includeGstInDuty input then Math_round (P * gstRate cfg) else 0);
         dutiable = P + gst;
         dutyRaw = Math_round (dutiable * dutyRate cfg);
         dutyCapCents = toCents_mvp (dutyCap cfg);
         duty = (if applyDutyCap input then min dutyRaw dutyCapCents else dutyRaw);
         licenceFee = toCents_mvp (licencePerAxle cfg * axles input);
         insuranceBase =
           (if includeInsuranceLines input then toCents_mvp (Config.insuranceBase cfg) else 0);
         insuranceGst =
           (if includeInsuranceLines input
            then Math_round (insuranceBase * insuranceGstRate cfg) else 0);
         insuranceDuty =
           (if includeInsuranceLines input
            then Math_round (insuranceBase * insuranceDutyRate cfg) else 0);
         recordingFee =
           (if firstTimeLicensing input then toCents_mvp (Config.recordingFee cfg) else 0);
         plateFee =
           (if firstTimeLicensing input then toCents_mvp (Config.plateFee cfg) else 0);
         inspectionFee =
           (if inspectionType input = initial then toCents_mvp (inspectionInitial cfg)
            else if inspectionType input = reinspection
            then toCents_mvp (inspectionReinspection cfg)
            else 0);
         roadRegoSubtotal =
           licenceFee + insuranceBase + insuranceGst + insuranceDuty + recordingFee
             + plateFee + inspectionFee;
         totalOnRoad = roadRegoSubtotal + duty
     in \<lparr> gst = fromCents_mvp gst,
          dutiable = fromCents_mvp dutiable,
          duty = fromCents_mvp duty,
          licenceFee = fromCents_mvp licenceFee,
          insuranceBase = fromCents_mvp insuranceBase,
          insuranceGst = fromCents_mvp insuranceGst,
          insuranceDuty = fromCents_mvp insuranceDuty,
          recordingFee = fromCents_mvp recordingFee,
          plateFee = fromCents_mvp plateFee,
          inspectionFee = fromCents_mvp inspectionFee,
          roadRegoSubtotal = fromCents_mvp roadRegoSubtotal,
          totalOnRoad = fromCents_mvp totalOnRoad \<rparr>)"

text \<open>The helper of \<open>runSelfTests\<close> that compares an amount with its expected value.\<close>

definition approx :: "real \<Rightarrow> real \<Rightarrow> bool" where
  "approx a b = (\<bar>a - b\<bar> < 0.01)"

subsection \<open>The local constants of \<open>calculate\<close>\<close>

text \<open>
  Each \<open>const\<close> of the body of \<open>calculate\<close>, as a function of the input and of the
  configuration. They are amounts in cents; \<open>calculate\<close> returns them divided by 100
  (lemma \<open>calculate_fields\<close> below).
\<close>

definition P_cents :: "CalcInput \<Rightarrow> real" where
  "P_cents input = toCents (priceExGst input)"

definition gst_cents :: "CalcInput \<Rightarrow> Config \<Rightarrow> real" where
  "gst_cents input cfg =
     (if includeGstInDuty input then Math_round (P_cents input * gstRate cfg) else 0)"

definition dutiable_cents :: "CalcInput \<Rightarrow> Config \<Rightarrow> real" where
  "dutiable_cents input cfg = P_cents input + gst_cents input cfg"

definition dutyRaw_cents :: "CalcInput \<Rightarrow> Config \<Rightarrow> real" where
  "dutyRaw_cents input cfg = Math_round (dutiable_cents input cfg * dutyRate cfg)"

definition dutyCapCents :: "Config \<Rightarrow> real" where
  "dutyCapCents cfg = toCents (dutyCap cfg)"

definition duty_cents :: "CalcInput \<Rightarrow> Config \<Rightarrow> real" where
  "duty_cents input cfg =
     (if applyDutyCap input then min (dutyRaw_cents input cfg) (dutyCapCents cfg)
      else dutyRaw_cents input cfg)"

definition licenceFee_cents :: "CalcInput \<Rightarrow> Config \<Rightarrow> real" where
  "licenceFee_cents input cfg = toCents (licencePerAxle cfg * axles input)"

definition insuranceBase_cents :: "CalcInput \<Rightarrow> Config \<Rightarrow> real" where
  "insuranceBase_cents input cfg =
     (if includeInsuranceLines input then toCents (Config.insuranceBase cfg) else 0)"

definition insuranceGst_cents :: "CalcInput \<Rightarrow> Config \<Rightarrow> real" where
  "insuranceGst_cents input cfg =
     (if includeInsuranceLines input
      then Math_round (insuranceBase_cents input cfg * insuranceGstRate cfg) else 0)"

definition insuranceDuty_cents :: "CalcInput \<Rightarrow> Config \<Rightarrow> real" where
  "insuranceDuty_cents input cfg =
     (if includeInsuranceLines input
      then Math_round (insuranceBase_cents input cfg * insuranceDutyRate cfg) else 0)"

definition recordingFee_cents :: "CalcInput \<Rightarrow> Config \<Rightarrow> real" where
  "recordingFee_cents input cfg =
     (if firstTimeLicensing input then toCents (Config.recordingFee cfg) else 0)"

definition plateFee_cents :: "CalcInput \<Rightarrow> Config \<Rightarrow> real" where
  "plateFee_cents input cfg =
     (if firstTimeLicensing input then toCents (Config.plateFee cfg) else 0)"

definition inspectionFee_cents :: "CalcInput \<Rightarrow> Config \<Rightarrow> real" where
  "inspectionFee_cents input cfg =
     (if inspectionType input = initial then toCents (inspectionInitial cfg)
      else if inspectionType input = reinspection then toCents (inspectionReinspection cfg)
      else 0)"

definition roadRegoSubtotal_cents :: "CalcInput \<Rightarrow> Config \<Rightarrow> real" where
  "roadRegoSubtotal_cents input cfg =
     licenceFee_cents input cfg + insuranceBase_cents input cfg
       + insuranceGst_cents input cfg + insuranceDuty_cents input cfg
       + recordingFee_cents input cfg + plateFee_cents input cfg
       + inspectionFee_cents input cfg"

definition totalOnRoad_cents :: "CalcInput \<Rightarrow> Config \<Rightarrow> real" where
  "totalOnRoad_cents input cfg = roadRegoSubtotal_cents input cfg + duty_cents input cfg"

subsection \<open>The calculation as the specification words it\<close>

text \<open>
  The specification describes the duty chain in whole cents. Its steps are written
  here over \<open>int\<close>, with the rounding function \<open>round\<close> of the library
  (\<open>round x = \<lfloor>x + 1/2\<rfloor>\<close>), independently of the definitions above:
  \<open>P\<close> is the price converted to integer minor units, \<open>gst = round(P * gstRate)\<close> or 0,
  \<open>dutiable = P + gst\<close>, \<open>dutyRaw = round(dutiable * dutyRate)\<close>, and
  \<open>duty = applyDutyCap ? min(dutyRaw, round(dutyCap_in_minor_units)) : dutyRaw\<close>.
\<close>

definition spec_P :: "CalcInput \<Rightarrow> int" where
  "spec_P input = round (priceExGst input * 100)"

definition spec_gst :: "CalcInput \<Rightarrow> Config \<Rightarrow> int" where
  "spec_gst input cfg =
     (if includeGstInDuty input then round (of_int (spec_P input) * gstRate cfg) else 0)"

definition spec_dutiable :: "CalcInput \<Rightarrow> Config \<Rightarrow> int" where
  "spec_dutiable input cfg = spec_P input + spec_gst input cfg"

definition spec_dutyRaw :: "CalcInput \<Rightarrow> Config \<Rightarrow> int" where
  "spec_dutyRaw input cfg = round (of_int (spec_dutiable input cfg) * dutyRate cfg)"

definition spec_dutyCap :: "Config \<Rightarrow> int" where
  "spec_dutyCap cfg = round (dutyCap cfg * 100)"

definition spec_duty :: "CalcInput \<Rightarrow> Config \<Rightarrow> int" where
  "spec_duty input cfg =
     (if applyDutyCap input then min (spec_dutyRaw input cfg) (spec_dutyCap cfg)
      else spec_dutyRaw input cfg)"


text \<open>The insurance base converted to minor units.\<close>

definition spec_insuranceBase :: "Config \<Rightarrow> int" where
  "spec_insuranceBase cfg = round (Config.insuranceBase cfg * 100)"

text \<open>
  A well-formed output: each of the twelve amounts is a whole number of cents.
\<close>

definition well_formed :: "CalcOutput \<Rightarrow> bool" where
  "well_formed out \<longleftrightarrow>
     gst out * 100 \<in> \<int> \<and> dutiable out * 100 \<in> \<int> \<and> duty out * 100 \<in> \<int>
     \<and> licenceFee out * 100 \<in> \<int> \<and> insuranceBase out * 100 \<in> \<int>
     \<and> insuranceGst out * 100 \<in> \<int> \<and> insuranceDuty out * 100 \<in> \<int>
     \<and> recordingFee out * 100 \<in> \<int> \<and> plateFee out * 100 \<in> \<int>
     \<and> inspectionFee out * 100 \<in> \<int> \<and> roadRegoSubtotal out * 100 \<in> \<int>
     \<and> totalOnRoad out * 100 \<in> \<int>"

subsection \<open>Inputs of the self-tests\<close>

text \<open>
  \<open>tc1\<close>, \<open>tc3\<close>, \<open>tc6\<close>, \<open>tc7\<close> and \<open>tc8\<close> are the inputs of the test cases TC1,
  TC3, TC6, TC7 and TC8 of \<open>runSelfTests\<close>. \<open>tc3_uncapped\<close> is TC3 with the cap
  switched off, and \<open>at_cap\<close> is an input whose raw duty is the cap itself (3% of
  400,000.00 is 12,000.00). \<open>out_of_domain\<close> is TC1 with a negative price and twelve
  axles. \<open>two_axles\<close> is TC1 with two axles, and \<open>eighth_cfg\<close> the default rates with a
  licence fee of 12.5 cents per axle.
\<close>

definition tc1 :: CalcInput where
  "tc1 = \<lparr> priceExGst = 75000, axles = 3, includeGstInDuty = True, applyDutyCap = True,
           firstTimeLicensing = True, includeInsuranceLines = False, inspectionType = none \<rparr>"

definition tc3 :: CalcInput where
  "tc3 = \<lparr> priceExGst = 1000000, axles = 1, includeGstInDuty = True, applyDutyCap = True,
           firstTimeLicensing = True, includeInsuranceLines = False, inspectionType = none \<rparr>"

definition tc8 :: CalcInput where
  "tc8 = \<lparr> priceExGst = 0, axles = 3, includeGstInDuty = True, applyDutyCap = True,
           firstTimeLicensing = True, includeInsuranceLines = True, inspectionType = initial \<rparr>"

definition tc6 :: CalcInput where
  "tc6 = \<lparr> priceExGst = 75000, axles = 3, includeGstInDuty = True, applyDutyCap = True,
           firstTimeLicensing = True, includeInsuranceLines = True,
           inspectionType = reinspection \<rparr>"

definition tc7 :: CalcInput where
  "tc7 = \<lparr> priceExGst = 75000, axles = 3, includeGstInDuty = True, applyDutyCap = True,
           firstTimeLicensing = False, includeInsuranceLines = True, inspectionType = none \<rparr>"

definition tc3_uncapped :: CalcInput where
  "tc3_uncapped = tc3 \<lparr> applyDutyCap := False \<rparr>"

definition at_cap :: CalcInput where
  "at_cap = \<lparr> priceExGst = 400000, axles = 1, includeGstInDuty = False, applyDutyCap = True,
              firstTimeLicensing = True, includeInsuranceLines = False, inspectionType = none \<rparr>"

definition out_of_domain :: CalcInput where
  "out_of_domain = tc1 \<lparr> priceExGst := - 100, axles := 12 \<rparr>"



section \<open>Properties\<close>

subsection \<open>Rounding and the money helpers\<close>

lemma Math_round_round: "Math_round x = of_int (round x)"
  by (simp add: Math_round_def round_def)

lemma Math_round_Ints: "Math_round x \<in> \<int>"
  by (simp add: Math_round_def)

lemma Math_round_ident: "x \<in> \<int> \<Longrightarrow> Math_round x = x"
  by (auto simp: Math_round_round elim!: Ints_cases)

lemma Math_round_nonneg: "0 \<le> x \<Longrightarrow> 0 \<le> Math_round x"
  by (simp add: Math_round_def)

text \<open>\<open>Math.round\<close> gives a nearest integer, and a tie goes up, also below zero.\<close>

lemma Math_round_nearest: "\<bar>Math_round x - x\<bar> \<le> 1 / 2"
  unfolding Math_round_round using of_int_round_abs_le [of x] by simp

lemma Math_round_tie: "Math_round (of_int n + 1 / 2) = of_int n + 1"
  unfolding Math_round_def by simp

lemma Math_round_examples: "Math_round 2.5 = 3" "Math_round (- 2.5) = - 2"
  unfolding Math_round_def by simp_all

lemma toCents_round: "toCents x = of_int (round (x * 100))"
  by (simp add: toCents_def Math_round_round)

lemma toCents_fromCents: "c \<in> \<int> \<Longrightarrow> toCents (fromCents c) = c"
  by (simp add: toCents_def fromCents_def Math_round_ident)

lemma fromCents_add: "fromCents (a + b) = fromCents a + fromCents b"
  by (simp add: fromCents_def add_divide_distrib)

subsection \<open>The output record, field by field\<close>

lemmas cents_defs = P_cents_def gst_cents_def dutiable_cents_def dutyRaw_cents_def
  dutyCapCents_def duty_cents_def licenceFee_cents_def insuranceBase_cents_def
  insuranceGst_cents_def insuranceDuty_cents_def recordingFee_cents_def plateFee_cents_def
  inspectionFee_cents_def roadRegoSubtotal_cents_def totalOnRoad_cents_def

lemma calculate_fields:
  "calculate input cfg =
     \<lparr> gst = fromCents (gst_cents input cfg),
       dutiable = fromCents (dutiable_cents input cfg),
       duty = fromCents (duty_cents input cfg),
       licenceFee = fromCents (licenceFee_cents input cfg),
       insuranceBase = fromCents (insuranceBase_cents input cfg),
       insuranceGst = fromCents (insuranceGst_cents input cfg),
       insuranceDuty = fromCents (insuranceDuty_cents input cfg),
       recordingFee = fromCents (recordingFee_cents input cfg),
       plateFee = fromCents (plateFee_cents input cfg),
       inspectionFee = fromCents (inspectionFee_cents input cfg),
       roadRegoSubtotal = fromCents (roadRegoSubtotal_cents input cfg),
       totalOnRoad = fromCents (totalOnRoad_cents input cfg) \<rparr>"
  unfolding calculate_def Let_def cents_defs by (rule refl)

text \<open>The constants of the duty chain are the integers of the specification.\<close>

lemma P_cents_spec: "P_cents input = of_int (spec_P input)"
  by (simp add: P_cents_def spec_P_def toCents_round)

lemma gst_cents_spec: "gst_cents input cfg = of_int (spec_gst input cfg)"
  by (simp add: gst_cents_def spec_gst_def P_cents_spec Math_round_round)

lemma dutiable_cents_spec: "dutiable_cents input cfg = of_int (spec_dutiable input cfg)"
  by (simp add: dutiable_cents_def spec_dutiable_def P_cents_spec gst_cents_spec)

lemma dutyRaw_cents_spec: "dutyRaw_cents input cfg = of_int (spec_dutyRaw input cfg)"
  by (simp add: dutyRaw_cents_def spec_dutyRaw_def dutiable_cents_spec Math_round_round)

lemma dutyCapCents_spec: "dutyCapCents cfg = of_int (spec_dutyCap cfg)"
  by (simp add: dutyCapCents_def spec_dutyCap_def toCents_round)

lemma duty_cents_spec: "duty_cents input cfg = of_int (spec_duty input cfg)"
  by (simp add: duty_cents_def spec_duty_def dutyRaw_cents_spec dutyCapCents_spec of_int_min)

text \<open>Every amount in cents is a whole number.\<close>

lemma gst_cents_Ints: "gst_cents input cfg \<in> \<int>"
  by (simp add: gst_cents_spec)

lemma dutiable_cents_Ints: "dutiable_cents input cfg \<in> \<int>"
  by (simp add: dutiable_cents_spec)

lemma duty_cents_Ints: "duty_cents input cfg \<in> \<int>"
  by (simp add: duty_cents_spec)

lemma licenceFee_cents_Ints: "licenceFee_cents input cfg \<in> \<int>"
  by (simp add: licenceFee_cents_def toCents_round)

lemma insuranceBase_cents_Ints: "insuranceBase_cents input cfg \<in> \<int>"
  by (simp add: insuranceBase_cents_def toCents_round)

lemma insuranceGst_cents_Ints: "insuranceGst_cents input cfg \<in> \<int>"
  by (simp add: insuranceGst_cents_def Math_round_Ints)

lemma insuranceDuty_cents_Ints: "insuranceDuty_cents input cfg \<in> \<int>"
  by (simp add: insuranceDuty_cents_def Math_round_Ints)

lemma recordingFee_cents_Ints: "recordingFee_cents input cfg \<in> \<int>"
  by (simp add: recordingFee_cents_def toCents_round)

lemma plateFee_cents_Ints: "plateFee_cents input cfg \<in> \<int>"
  by (simp add: plateFee_cents_def toCents_round)

lemma inspectionFee_cents_Ints: "inspectionFee_cents input cfg \<in> \<int>"
  by (simp add: inspectionFee_cents_def toCents_round)

lemmas fee_cents_Ints = licenceFee_cents_Ints insuranceBase_cents_Ints
  insuranceGst_cents_Ints insuranceDuty_cents_Ints recordingFee_cents_Ints
  plateFee_cents_Ints inspectionFee_cents_Ints

lemma roadRegoSubtotal_cents_Ints: "roadRegoSubtotal_cents input cfg \<in> \<int>"
  unfolding roadRegoSubtotal_cents_def by (intro Ints_add fee_cents_Ints)

lemma totalOnRoad_cents_Ints: "totalOnRoad_cents input cfg \<in> \<int>"
  unfolding totalOnRoad_cents_def
  by (intro Ints_add roadRegoSubtotal_cents_Ints duty_cents_Ints)

subsection \<open>The totals\<close>

text \<open>
  Claim C1. For every input and every rate configuration, the output of \<open>calculate\<close>
  satisfies \<open>roadRegoSubtotal = licenceFee + insuranceBase + insuranceGst + insuranceDuty
  + recordingFee + plateFee + inspectionFee\<close> and \<open>totalOnRoad = roadRegoSubtotal + duty\<close>,
  exactly to the minor unit. The two equations hold between the fields of the output
  and, again, between the same fields converted to cents.
\<close>

theorem totals_exact:
  "roadRegoSubtotal (calculate input cfg) =
     licenceFee (calculate input cfg) + insuranceBase (calculate input cfg)
       + insuranceGst (calculate input cfg) + insuranceDuty (calculate input cfg)
       + recordingFee (calculate input cfg) + plateFee (calculate input cfg)
       + inspectionFee (calculate input cfg)
   \<and> totalOnRoad (calculate input cfg) =
     roadRegoSubtotal (calculate input cfg) + duty (calculate input cfg)
   \<and> toCents (roadRegoSubtotal (calculate input cfg)) =
     toCents (licenceFee (calculate input cfg))
       + toCents (insuranceBase (calculate input cfg))
       + toCents (insuranceGst (calculate input cfg))
       + toCents (insuranceDuty (calculate input cfg))
       + toCents (recordingFee (calculate input cfg))
       + toCents (plateFee (calculate input cfg))
       + toCents (inspectionFee (calculate input cfg))
   \<and> toCents (totalOnRoad (calculate input cfg)) =
     toCents (roadRegoSubtotal (calculate input cfg)) + toCents (duty (calculate input cfg))"
  by (simp add: calculate_fields toCents_fromCents fee_cents_Ints duty_cents_Ints
      roadRegoSubtotal_cents_Ints totalOnRoad_cents_Ints)
    (simp add: roadRegoSubtotal_cents_def totalOnRoad_cents_def fromCents_add)

subsection \<open>The duty chain\<close>

text \<open>
  Claim C2. For every input, \<open>calculate\<close> computes the duty chain as the
  specification words it: \<open>P\<close> is \<open>priceExGst\<close> converted to integer minor units;
  \<open>gst\<close> is \<open>round(P * gstRate)\<close> when \<open>includeGstInDuty\<close> is true and 0 otherwise,
  rounded once, in minor units; \<open>dutiable = P + gst\<close>; \<open>dutyRaw = round(dutiable *
  dutyRate)\<close>. The raw duty is a local constant; it is the field \<open>duty\<close> of the output
  when the cap is switched off.
\<close>

theorem duty_chain:
  "P_cents input = of_int (spec_P input)
   \<and> gst (calculate input cfg) = of_int (spec_gst input cfg) / 100
   \<and> dutiable (calculate input cfg) = of_int (spec_dutiable input cfg) / 100
   \<and> dutyRaw_cents input cfg = of_int (spec_dutyRaw input cfg)
   \<and> duty (calculate (input\<lparr>applyDutyCap := False\<rparr>) cfg)
       = of_int (spec_dutyRaw input cfg) / 100"
  by (simp add: calculate_fields fromCents_def gst_cents_spec dutiable_cents_spec
      duty_cents_spec P_cents_spec dutyRaw_cents_spec)
    (simp add: spec_duty_def spec_dutyRaw_def spec_dutiable_def spec_gst_def spec_P_def)

subsection \<open>The duty cap\<close>

text \<open>
  Claim C3. Whenever \<open>applyDutyCap\<close> is true, the output duty is the smaller of
  \<open>dutyRaw\<close> and the cap in minor units, so the duty is at most the cap (at most
  \<open>dutyCap\<close> itself when that is a whole number of cents), for any price; the minimum is
  inclusive: a raw duty equal to the cap gives the cap. When \<open>applyDutyCap\<close> is false
  the duty is \<open>dutyRaw\<close>, uncapped.
\<close>

theorem duty_capped:
  "duty (calculate input cfg) = of_int (spec_duty input cfg) / 100
   \<and> (applyDutyCap input \<longrightarrow>
        spec_duty input cfg = min (spec_dutyRaw input cfg) (spec_dutyCap cfg)
        \<and> duty (calculate input cfg) \<le> of_int (spec_dutyCap cfg) / 100)
   \<and> (applyDutyCap input \<and> dutyCap cfg * 100 \<in> \<int> \<longrightarrow>
        duty (calculate input cfg) \<le> dutyCap cfg)
   \<and> (applyDutyCap input \<and> spec_dutyRaw input cfg = spec_dutyCap cfg \<longrightarrow>
        duty (calculate input cfg) = of_int (spec_dutyCap cfg) / 100)
   \<and> (\<not> applyDutyCap input \<longrightarrow>
        duty (calculate input cfg) = of_int (spec_dutyRaw input cfg) / 100)"
proof -
  have d: "duty (calculate input cfg) = of_int (spec_duty input cfg) / 100"
    by (simp add: calculate_fields fromCents_def duty_cents_spec)
  have whole: "of_int (spec_dutyCap cfg) / 100 = dutyCap cfg" if "dutyCap cfg * 100 \<in> \<int>"
    using that by (auto simp: spec_dutyCap_def elim!: Ints_cases)
  have le: "real_of_int (spec_duty input cfg) / 100 \<le> of_int (spec_dutyCap cfg) / 100"
    if "applyDutyCap input"
    using that by (simp add: spec_duty_def)
  show ?thesis
    using le whole by (auto simp: d spec_duty_def)
qed

text \<open>
  The theorem at three inputs under the default rates: TC3 (raw duty 33,000.00, capped
  to 12,000.00), a price of 400,000.00 without GST (raw duty equal to the cap), and TC3
  with the cap switched off.
\<close>

theorem duty_capped_witness:
  "(applyDutyCap tc3 \<and> dutyCap DEFAULTS * 100 \<in> \<int>
      \<and> duty (calculate tc3 DEFAULTS) \<le> dutyCap DEFAULTS)
   \<and> (applyDutyCap at_cap \<and> spec_dutyRaw at_cap DEFAULTS = spec_dutyCap DEFAULTS
      \<and> duty (calculate at_cap DEFAULTS) = 12000)
   \<and> (\<not> applyDutyCap tc3_uncapped \<and> duty (calculate tc3_uncapped DEFAULTS) = 33000)"
proof -
  have a: "applyDutyCap tc3 \<and> dutyCap DEFAULTS * 100 \<in> \<int>"
    by (simp add: tc3_def DEFAULTS_def)
  have b: "applyDutyCap at_cap \<and> spec_dutyRaw at_cap DEFAULTS = spec_dutyCap DEFAULTS"
    by (simp add: at_cap_def DEFAULTS_def spec_dutyRaw_def spec_dutyCap_def
        spec_dutiable_def spec_gst_def spec_P_def)
  have b': "spec_dutyCap DEFAULTS = 1200000"
    by (simp add: DEFAULTS_def spec_dutyCap_def)
  have c: "\<not> applyDutyCap tc3_uncapped \<and> spec_dutyRaw tc3_uncapped DEFAULTS = 3300000"
    by (simp add: tc3_uncapped_def tc3_def DEFAULTS_def spec_dutyRaw_def
        spec_dutiable_def spec_gst_def spec_P_def)
  show ?thesis
    using a b b' c duty_capped [of tc3 DEFAULTS] duty_capped [of at_cap DEFAULTS]
      duty_capped [of tc3_uncapped DEFAULTS]
    by simp
qed

subsection \<open>The licence fee\<close>

lemma licenceFee_round:
  "licenceFee (calculate input cfg)
     = of_int (round (licencePerAxle cfg * axles input * 100)) / 100"
  by (simp add: calculate_fields fromCents_def licenceFee_cents_def toCents_round)



subsection \<open>The insurance lines\<close>

text \<open>
  Claim C5. For every input: if \<open>includeInsuranceLines\<close> is true then \<open>insuranceBase\<close>
  is the configured insurance base converted to minor units, \<open>insuranceGst\<close> is
  \<open>round(insuranceBase * insuranceGstRate)\<close> and \<open>insuranceDuty\<close> is
  \<open>round(insuranceBase * insuranceDutyRate)\<close>, both on the base in minor units; if it is
  false, the three fields are 0.
\<close>

theorem insurance_lines:
  "(includeInsuranceLines input \<longrightarrow>
      insuranceBase (calculate input cfg) = of_int (spec_insuranceBase cfg) / 100
      \<and> insuranceGst (calculate input cfg)
          = of_int (round (of_int (spec_insuranceBase cfg) * insuranceGstRate cfg)) / 100
      \<and> insuranceDuty (calculate input cfg)
          = of_int (round (of_int (spec_insuranceBase cfg) * insuranceDutyRate cfg)) / 100)
   \<and> (\<not> includeInsuranceLines input \<longrightarrow>
      insuranceBase (calculate input cfg) = 0
      \<and> insuranceGst (calculate input cfg) = 0
      \<and> insuranceDuty (calculate input cfg) = 0)"
  by (simp add: calculate_fields fromCents_def insuranceBase_cents_def
      insuranceGst_cents_def insuranceDuty_cents_def spec_insuranceBase_def
      toCents_round Math_round_round)

text \<open>
  The theorem at TC8 (insurance on: 14.59, 1.46 and 1.60 under the default rates) and
  at TC1 (insurance off).
\<close>

theorem insurance_lines_witness:
  "(includeInsuranceLines tc8
      \<and> insuranceBase (calculate tc8 DEFAULTS) = 14.59
      \<and> insuranceGst (calculate tc8 DEFAULTS) = 1.46
      \<and> insuranceDuty (calculate tc8 DEFAULTS) = 1.60)
   \<and> (\<not> includeInsuranceLines tc1
      \<and> insuranceBase (calculate tc1 DEFAULTS) = 0
      \<and> insuranceGst (calculate tc1 DEFAULTS) = 0
      \<and> insuranceDuty (calculate tc1 DEFAULTS) = 0)"
proof -
  have h: "includeInsuranceLines tc8 \<and> \<not> includeInsuranceLines tc1"
    by (simp add: tc8_def tc1_def)
  have b: "spec_insuranceBase DEFAULTS = 1459"
    by (simp add: spec_insuranceBase_def DEFAULTS_def)
  have g: "round ((1459 :: real) * insuranceGstRate DEFAULTS) = 146"
    by (simp add: DEFAULTS_def round_def)
  have d: "round ((1459 :: real) * insuranceDutyRate DEFAULTS) = 160"
    by (simp add: DEFAULTS_def round_def)
  show ?thesis
    using h insurance_lines [of tc8 DEFAULTS] insurance_lines [of tc1 DEFAULTS]
    by (simp add: b g d)
qed

subsection \<open>First-time licensing and inspection\<close>

text \<open>
  Claim C6. For every input: \<open>firstTimeLicensing = false\<close> forces \<open>recordingFee =
  plateFee = 0\<close>, and \<open>true\<close> makes them the configured amounts (in whole cents);
  \<open>inspectionType = none\<close> forces \<open>inspectionFee = 0\<close>, and each of the two other
  inspection types contributes exactly one configured fee, \<open>inspectionInitial\<close> or
  \<open>inspectionReinspection\<close>, never the sum of both.
\<close>

theorem first_time_and_inspection:
  "(\<not> firstTimeLicensing input \<longrightarrow>
      recordingFee (calculate input cfg) = 0 \<and> plateFee (calculate input cfg) = 0)
   \<and> (firstTimeLicensing input \<longrightarrow>
      recordingFee (calculate input cfg)
        = of_int (round (Config.recordingFee cfg * 100)) / 100
      \<and> plateFee (calculate input cfg) = of_int (round (Config.plateFee cfg * 100)) / 100)
   \<and> (inspectionType input = none \<longrightarrow> inspectionFee (calculate input cfg) = 0)
   \<and> (inspectionType input = initial \<longrightarrow>
      inspectionFee (calculate input cfg)
        = of_int (round (inspectionInitial cfg * 100)) / 100)
   \<and> (inspectionType input = reinspection \<longrightarrow>
      inspectionFee (calculate input cfg)
        = of_int (round (inspectionReinspection cfg * 100)) / 100)"
  by (simp add: calculate_fields fromCents_def recordingFee_cents_def plateFee_cents_def
      inspectionFee_cents_def toCents_round)

text \<open>
  The theorem at TC7 (no first-time licensing, no inspection), TC8 (first-time
  licensing, initial inspection) and TC6 (reinspection), under the default rates.
\<close>

theorem first_time_and_inspection_witness:
  "(\<not> firstTimeLicensing tc7 \<and> inspectionType tc7 = none
      \<and> recordingFee (calculate tc7 DEFAULTS) = 0 \<and> plateFee (calculate tc7 DEFAULTS) = 0
      \<and> inspectionFee (calculate tc7 DEFAULTS) = 0)
   \<and> (firstTimeLicensing tc8 \<and> inspectionType tc8 = initial
      \<and> recordingFee (calculate tc8 DEFAULTS) = 10.45
      \<and> plateFee (calculate tc8 DEFAULTS) = 32
      \<and> inspectionFee (calculate tc8 DEFAULTS) = 284)
   \<and> (inspectionType tc6 = reinspection \<and> inspectionFee (calculate tc6 DEFAULTS) = 172)"
proof -
  have h: "\<not> firstTimeLicensing tc7 \<and> inspectionType tc7 = none
      \<and> firstTimeLicensing tc8 \<and> inspectionType tc8 = initial
      \<and> inspectionType tc6 = reinspection"
    by (simp add: tc6_def tc7_def tc8_def)
  have v: "round (Config.recordingFee DEFAULTS * 100) = 1045"
    "round (Config.plateFee DEFAULTS * 100) = 3200"
    "round (inspectionInitial DEFAULTS * 100) = 28400"
    "round (inspectionReinspection DEFAULTS * 100) = 17200"
    by (simp_all add: DEFAULTS_def)
  show ?thesis
    using h first_time_and_inspection [of tc7 DEFAULTS]
      first_time_and_inspection [of tc8 DEFAULTS]
      first_time_and_inspection [of tc6 DEFAULTS]
    by (simp add: v)
qed

subsection \<open>The default rates\<close>

lemma dutyCapCents_DEFAULTS: "dutyCapCents DEFAULTS = 1200000"
  unfolding dutyCapCents_def toCents_round by (simp add: DEFAULTS_def)

lemma licenceFee_cents_DEFAULTS:
  "licenceFee_cents input DEFAULTS = Math_round (57200 * axles input)"
  unfolding licenceFee_cents_def toCents_def by (simp add: DEFAULTS_def)

lemma insuranceBase_cents_DEFAULTS:
  "insuranceBase_cents input DEFAULTS = (if includeInsuranceLines input then 1459 else 0)"
  unfolding insuranceBase_cents_def toCents_round by (simp add: DEFAULTS_def)

lemma insuranceGst_cents_DEFAULTS:
  "insuranceGst_cents input DEFAULTS = (if includeInsuranceLines input then 146 else 0)"
  unfolding insuranceGst_cents_def insuranceBase_cents_DEFAULTS Math_round_round
  by (simp add: DEFAULTS_def round_def)

lemma insuranceDuty_cents_DEFAULTS:
  "insuranceDuty_cents input DEFAULTS = (if includeInsuranceLines input then 160 else 0)"
  unfolding insuranceDuty_cents_def insuranceBase_cents_DEFAULTS Math_round_round
  by (simp add: DEFAULTS_def round_def)

lemma recordingFee_cents_DEFAULTS:
  "recordingFee_cents input DEFAULTS = (if firstTimeLicensing input then 1045 else 0)"
  unfolding recordingFee_cents_def toCents_round by (simp add: DEFAULTS_def)

lemma plateFee_cents_DEFAULTS:
  "plateFee_cents input DEFAULTS = (if firstTimeLicensing input then 3200 else 0)"
  unfolding plateFee_cents_def toCents_round by (simp add: DEFAULTS_def)

lemma inspectionFee_cents_DEFAULTS:
  "inspectionFee_cents input DEFAULTS =
     (case inspectionType input of none \<Rightarrow> 0 | initial \<Rightarrow> 28400 | reinspection \<Rightarrow> 17200)"
  unfolding inspectionFee_cents_def toCents_round
  by (cases "inspectionType input") (simp_all add: DEFAULTS_def)

lemmas fee_cents_DEFAULTS = licenceFee_cents_DEFAULTS insuranceBase_cents_DEFAULTS
  insuranceGst_cents_DEFAULTS insuranceDuty_cents_DEFAULTS recordingFee_cents_DEFAULTS
  plateFee_cents_DEFAULTS inspectionFee_cents_DEFAULTS

subsection \<open>The self-tests, evaluated\<close>

lemma roadRegoSubtotal_tc1: "roadRegoSubtotal_cents tc1 DEFAULTS = 175845"
  unfolding roadRegoSubtotal_cents_def fee_cents_DEFAULTS Math_round_round
  by (simp add: tc1_def)

lemma P_tc1: "P_cents tc1 = 7500000"
  unfolding P_cents_def toCents_round by (simp add: tc1_def)

lemma gst_tc1: "gst_cents tc1 DEFAULTS = 750000"
  unfolding gst_cents_def P_tc1 Math_round_round by (simp add: tc1_def DEFAULTS_def)

lemma dutyRaw_tc1: "dutyRaw_cents tc1 DEFAULTS = 247500"
  unfolding dutyRaw_cents_def dutiable_cents_def P_tc1 gst_tc1 Math_round_round
  by (simp add: DEFAULTS_def)

lemma duty_tc1: "duty_cents tc1 DEFAULTS = 247500"
  unfolding duty_cents_def dutyRaw_tc1 dutyCapCents_DEFAULTS by simp

lemma totalOnRoad_tc1: "totalOnRoad_cents tc1 DEFAULTS = 423345"
  unfolding totalOnRoad_cents_def roadRegoSubtotal_tc1 duty_tc1 by simp

lemma roadRegoSubtotal_tc3: "roadRegoSubtotal_cents tc3 DEFAULTS = 61445"
  unfolding roadRegoSubtotal_cents_def fee_cents_DEFAULTS Math_round_round
  by (simp add: tc3_def)

lemma P_tc3: "P_cents tc3 = 100000000"
  unfolding P_cents_def toCents_round by (simp add: tc3_def)

lemma gst_tc3: "gst_cents tc3 DEFAULTS = 10000000"
  unfolding gst_cents_def P_tc3 Math_round_round by (simp add: tc3_def DEFAULTS_def)

lemma dutyRaw_tc3: "dutyRaw_cents tc3 DEFAULTS = 3300000"
  unfolding dutyRaw_cents_def dutiable_cents_def P_tc3 gst_tc3 Math_round_round
  by (simp add: DEFAULTS_def)

lemma duty_tc3: "duty_cents tc3 DEFAULTS = 1200000"
  unfolding duty_cents_def dutyRaw_tc3 dutyCapCents_DEFAULTS by (simp add: tc3_def)

lemma totalOnRoad_tc3: "totalOnRoad_cents tc3 DEFAULTS = 1261445"
  unfolding totalOnRoad_cents_def roadRegoSubtotal_tc3 duty_tc3 by simp

lemma roadRegoSubtotal_tc8: "roadRegoSubtotal_cents tc8 DEFAULTS = 206010"
  unfolding roadRegoSubtotal_cents_def fee_cents_DEFAULTS Math_round_round
  by (simp add: tc8_def)

lemma P_tc8: "P_cents tc8 = 0"
  unfolding P_cents_def toCents_round by (simp add: tc8_def)

lemma gst_tc8: "gst_cents tc8 DEFAULTS = 0"
  unfolding gst_cents_def P_tc8 Math_round_round by simp

lemma dutyRaw_tc8: "dutyRaw_cents tc8 DEFAULTS = 0"
  unfolding dutyRaw_cents_def dutiable_cents_def P_tc8 gst_tc8 Math_round_round
  by simp

lemma duty_tc8: "duty_cents tc8 DEFAULTS = 0"
  unfolding duty_cents_def dutyRaw_tc8 dutyCapCents_DEFAULTS by simp

lemma totalOnRoad_tc8: "totalOnRoad_cents tc8 DEFAULTS = 206010"
  unfolding totalOnRoad_cents_def roadRegoSubtotal_tc8 duty_tc8 by simp

lemma fees_tc8:
  "licenceFee_cents tc8 DEFAULTS = 171600" "recordingFee_cents tc8 DEFAULTS = 1045"
  "plateFee_cents tc8 DEFAULTS = 3200" "inspectionFee_cents tc8 DEFAULTS = 28400"
  unfolding fee_cents_DEFAULTS Math_round_round by (simp_all add: tc8_def)

text \<open>
  Claim C7. Under the default rates \<open>calculate\<close> reproduces the end-to-end scenarios:
  TC1 (price 75,000, three axles, GST in duty, cap, first-time licensing, no insurance,
  no inspection) gives \<open>totalOnRoad = 4233.45\<close>; TC3 (price 1,000,000, one axle, same
  toggles) gives \<open>duty = 12000.00\<close> and \<open>totalOnRoad = 12614.45\<close>; TC8 (price 0, three
  axles, insurance on, initial inspection) gives \<open>duty = 0.00\<close> and
  \<open>totalOnRoad = 2060.10\<close>, the flat and per-axle fees still applying at zero price.
  The amounts are met exactly, hence within the tolerance of the self-tests (\<open>approx\<close>).
\<close>

theorem end_to_end_scenarios:
  "totalOnRoad (calculate tc1 DEFAULTS) = 4233.45
   \<and> approx (totalOnRoad (calculate tc1 DEFAULTS)) 4233.45
   \<and> duty (calculate tc3 DEFAULTS) = 12000.00
   \<and> approx (duty (calculate tc3 DEFAULTS)) 12000.00
   \<and> totalOnRoad (calculate tc3 DEFAULTS) = 12614.45
   \<and> approx (totalOnRoad (calculate tc3 DEFAULTS)) 12614.45
   \<and> duty (calculate tc8 DEFAULTS) = 0.00
   \<and> approx (duty (calculate tc8 DEFAULTS)) 0.00
   \<and> totalOnRoad (calculate tc8 DEFAULTS) = 2060.10
   \<and> approx (totalOnRoad (calculate tc8 DEFAULTS)) 2060.10
   \<and> licenceFee (calculate tc8 DEFAULTS) = 1716
   \<and> recordingFee (calculate tc8 DEFAULTS) = 10.45
   \<and> plateFee (calculate tc8 DEFAULTS) = 32
   \<and> inspectionFee (calculate tc8 DEFAULTS) = 284"
  unfolding calculate_fields
  by (simp add: totalOnRoad_tc1 duty_tc3 totalOnRoad_tc3 duty_tc8 totalOnRoad_tc8 fees_tc8
      fromCents_def approx_def)

subsection \<open>Non-negative amounts\<close>

lemma P_cents_nonneg: "0 \<le> priceExGst input \<Longrightarrow> 0 \<le> P_cents input"
  unfolding P_cents_def toCents_def by (rule Math_round_nonneg) simp

lemma rates_nonneg: "0 \<le> gstRate DEFAULTS" "0 \<le> dutyRate DEFAULTS"
  by (simp_all add: DEFAULTS_def)

lemma gst_cents_nonneg:
  "0 \<le> priceExGst input \<Longrightarrow> 0 \<le> gst_cents input DEFAULTS"
  unfolding gst_cents_def
  by (simp add: Math_round_nonneg mult_nonneg_nonneg P_cents_nonneg rates_nonneg)

lemma dutiable_cents_nonneg:
  "0 \<le> priceExGst input \<Longrightarrow> 0 \<le> dutiable_cents input DEFAULTS"
  unfolding dutiable_cents_def by (intro add_nonneg_nonneg P_cents_nonneg gst_cents_nonneg)

lemma dutyRaw_cents_nonneg:
  "0 \<le> priceExGst input \<Longrightarrow> 0 \<le> dutyRaw_cents input DEFAULTS"
  unfolding dutyRaw_cents_def
  by (intro Math_round_nonneg mult_nonneg_nonneg dutiable_cents_nonneg rates_nonneg)

lemma duty_cents_nonneg:
  "0 \<le> priceExGst input \<Longrightarrow> 0 \<le> duty_cents input DEFAULTS"
  unfolding duty_cents_def dutyCapCents_DEFAULTS
  using dutyRaw_cents_nonneg [of input] by simp

lemma licenceFee_cents_nonneg: "1 \<le> axles input \<Longrightarrow> 0 \<le> licenceFee_cents input DEFAULTS"
  unfolding licenceFee_cents_DEFAULTS by (rule Math_round_nonneg) simp

lemma flat_fees_nonneg:
  "0 \<le> insuranceBase_cents input DEFAULTS" "0 \<le> insuranceGst_cents input DEFAULTS"
  "0 \<le> insuranceDuty_cents input DEFAULTS" "0 \<le> recordingFee_cents input DEFAULTS"
  "0 \<le> plateFee_cents input DEFAULTS" "0 \<le> inspectionFee_cents input DEFAULTS"
  unfolding fee_cents_DEFAULTS by (simp_all split: InspectionType.split)

lemma roadRegoSubtotal_cents_nonneg:
  "1 \<le> axles input \<Longrightarrow> 0 \<le> roadRegoSubtotal_cents input DEFAULTS"
  unfolding roadRegoSubtotal_cents_def
  by (intro add_nonneg_nonneg licenceFee_cents_nonneg flat_fees_nonneg)

lemma totalOnRoad_cents_nonneg:
  "0 \<le> priceExGst input \<Longrightarrow> 1 \<le> axles input \<Longrightarrow> 0 \<le> totalOnRoad_cents input DEFAULTS"
  unfolding totalOnRoad_cents_def
  by (intro add_nonneg_nonneg roadRegoSubtotal_cents_nonneg duty_cents_nonneg)

lemma fromCents_nonneg: "0 \<le> c \<Longrightarrow> 0 \<le> fromCents c"
  by (simp add: fromCents_def)

text \<open>
  Claim C8. For every non-negative, in-domain input (\<open>priceExGst \<ge> 0\<close>, \<open>axles\<close> in
  1..9, any combination of the toggles) under the default configuration, the twelve
  fields of the output of \<open>calculate\<close> are non-negative.
\<close>

theorem outputs_nonneg:
  assumes "0 \<le> priceExGst input" and "1 \<le> axles input" and "axles input \<le> 9"
  shows "0 \<le> gst (calculate input DEFAULTS) \<and> 0 \<le> dutiable (calculate input DEFAULTS)
    \<and> 0 \<le> duty (calculate input DEFAULTS) \<and> 0 \<le> licenceFee (calculate input DEFAULTS)
    \<and> 0 \<le> insuranceBase (calculate input DEFAULTS)
    \<and> 0 \<le> insuranceGst (calculate input DEFAULTS)
    \<and> 0 \<le> insuranceDuty (calculate input DEFAULTS)
    \<and> 0 \<le> recordingFee (calculate input DEFAULTS)
    \<and> 0 \<le> plateFee (calculate input DEFAULTS)
    \<and> 0 \<le> inspectionFee (calculate input DEFAULTS)
    \<and> 0 \<le> roadRegoSubtotal (calculate input DEFAULTS)
    \<and> 0 \<le> totalOnRoad (calculate input DEFAULTS)"
  unfolding calculate_fields
  using assms
  by (simp add: fromCents_nonneg gst_cents_nonneg dutiable_cents_nonneg duty_cents_nonneg
      licenceFee_cents_nonneg flat_fees_nonneg roadRegoSubtotal_cents_nonneg
      totalOnRoad_cents_nonneg)

text \<open>The theorem at TC1.\<close>

theorem outputs_nonneg_witness:
  "0 \<le> priceExGst tc1 \<and> 1 \<le> axles tc1 \<and> axles tc1 \<le> 9
   \<and> 0 \<le> gst (calculate tc1 DEFAULTS) \<and> 0 \<le> dutiable (calculate tc1 DEFAULTS)
   \<and> 0 \<le> duty (calculate tc1 DEFAULTS) \<and> 0 \<le> licenceFee (calculate tc1 DEFAULTS)
   \<and> 0 \<le> insuranceBase (calculate tc1 DEFAULTS)
   \<and> 0 \<le> insuranceGst (calculate tc1 DEFAULTS)
   \<and> 0 \<le> insuranceDuty (calculate tc1 DEFAULTS)
   \<and> 0 \<le> recordingFee (calculate tc1 DEFAULTS)
   \<and> 0 \<le> plateFee (calculate tc1 DEFAULTS)
   \<and> 0 \<le> inspectionFee (calculate tc1 DEFAULTS)
   \<and> 0 \<le> roadRegoSubtotal (calculate tc1 DEFAULTS)
   \<and> 0 \<le> totalOnRoad (calculate tc1 DEFAULTS)"
proof -
  have h: "0 \<le> priceExGst tc1" "1 \<le> axles tc1" "axles tc1 \<le> 9"
    by (simp_all add: tc1_def)
  show ?thesis
    using h outputs_nonneg [OF h] by simp
qed

subsection \<open>Totality\<close>

lemma fromCents_whole: "c \<in> \<int> \<Longrightarrow> fromCents c * 100 \<in> \<int>"
  by (simp add: fromCents_def)

text \<open>The input \<open>out_of_domain\<close> under the default rates.\<close>

lemma P_ood: "P_cents out_of_domain = - 10000"
  unfolding P_cents_def toCents_round by (simp add: out_of_domain_def tc1_def)

lemma gst_ood: "gst_cents out_of_domain DEFAULTS = - 1000"
  unfolding gst_cents_def P_ood Math_round_round
  by (simp add: out_of_domain_def tc1_def DEFAULTS_def)

lemma dutyRaw_ood: "dutyRaw_cents out_of_domain DEFAULTS = - 330"
  unfolding dutyRaw_cents_def dutiable_cents_def P_ood gst_ood Math_round_round
  by (simp add: DEFAULTS_def)

lemma duty_ood: "duty_cents out_of_domain DEFAULTS = - 330"
  unfolding duty_cents_def dutyRaw_ood dutyCapCents_DEFAULTS by simp

lemma licenceFee_ood: "licenceFee_cents out_of_domain DEFAULTS = 686400"
  unfolding licenceFee_cents_DEFAULTS Math_round_round
  by (simp add: out_of_domain_def tc1_def)

text \<open>
  Claim C9. \<open>calculate\<close> is a total function with no fallible path: no operation of its
  body can raise, so the embedding needs no error value, and for every numeric input and
  configuration the result is a well-formed record (twelve amounts in whole cents). It
  does not clamp: under the default rates the licence fee is 572 per axle for every
  integer axle count \<open>n\<close>, also for \<open>n\<close> outside 1..9, zero or negative, and a price of
  \<open>p\<close> whole dollars, negative or zero included, is the dutiable value when no GST is
  added. A price of -100.00 with twelve axles gives a GST of -10.00, a duty of -3.30
  and a licence fee of 6864.00.
\<close>

theorem calculate_total_unclamped:
  "well_formed (calculate input cfg)
   \<and> licenceFee (calculate (input\<lparr>axles := of_int n\<rparr>) DEFAULTS) = 572 * of_int n
   \<and> dutiable (calculate (input\<lparr>priceExGst := of_int p, includeGstInDuty := False\<rparr>) cfg)
       = of_int p
   \<and> gst (calculate out_of_domain DEFAULTS) = - 10
   \<and> duty (calculate out_of_domain DEFAULTS) = - 3.30
   \<and> licenceFee (calculate out_of_domain DEFAULTS) = 6864"
proof -
  have wf: "well_formed (calculate input cfg)"
    unfolding well_formed_def calculate_fields
    by (simp add: fromCents_whole gst_cents_Ints dutiable_cents_Ints duty_cents_Ints
        fee_cents_Ints roadRegoSubtotal_cents_Ints totalOnRoad_cents_Ints)
  have "round (572 * real_of_int n * 100) = 57200 * n"
    by (rule round_unique') simp
  then have lic: "licenceFee (calculate (input\<lparr>axles := of_int n\<rparr>) DEFAULTS) = 572 * of_int n"
    by (simp add: licenceFee_round DEFAULTS_def)
  have "round (real_of_int p * 100) = 100 * p"
    by (rule round_unique') simp
  then have dut:
    "dutiable (calculate (input\<lparr>priceExGst := of_int p, includeGstInDuty := False\<rparr>) cfg)
       = of_int p"
    by (simp add: calculate_fields fromCents_def dutiable_cents_def gst_cents_def
        P_cents_def toCents_round)
  have ood: "gst (calculate out_of_domain DEFAULTS) = - 10"
    "duty (calculate out_of_domain DEFAULTS) = - 3.30"
    "licenceFee (calculate out_of_domain DEFAULTS) = 6864"
    unfolding calculate_fields
    by (simp_all add: gst_ood duty_ood licenceFee_ood fromCents_def)
  show ?thesis
    using wf lic dut ood by simp
qed

subsection \<open>The two revisions\<close>

lemma toCents_mvp_eq: "toCents_mvp = toCents"
  by (rule ext) (simp only: toCents_mvp_def toCents_def)

lemma fromCents_mvp_eq: "fromCents_mvp = fromCents"
  by (rule ext) (simp only: fromCents_mvp_def fromCents_def)

text \<open>
  Claim C10. The two implementations of \<open>calculate\<close>, the one of \<^verbatim>\<open>src/App.tsx\<close>
  and the earlier copy, are extensionally equal: for every input and rate configuration
  they return the same output record. Their default configurations are the same too, so
  the calls that leave \<open>cfg\<close> out agree as well.
\<close>

theorem implementations_equal:
  "calculate_mvp input cfg = calculate input cfg \<and> DEFAULTS_mvp = DEFAULTS"
proof
  show "calculate_mvp input cfg = calculate input cfg"
    unfolding calculate_mvp_def calculate_def toCents_mvp_eq fromCents_mvp_eq
    by (rule refl)
  show "DEFAULTS_mvp = DEFAULTS"
    unfolding DEFAULTS_mvp_def DEFAULTS_def by (rule refl)
qed

end
